theory Spec2Isabelle
  imports Complex_Main "HOL-Library.Multiset"
begin

section \<open>Exceptions and results\<close>

text \<open>
  The sources are JavaScript/TypeScript.  A call either returns a value or throws; in both
  cases the mutations made so far persist.  A result therefore always carries the state.
  \<open>TypeError\<close> is the engine's error for reading a property of \<open>null\<close> or
  \<open>undefined\<close>, \<open>Error msg\<close> is \<open>throw new Error(msg)\<close>, and \<open>RangeError\<close> is
  the engine's error when the call stack is exhausted.
\<close>

datatype error = TypeError | Error string | RangeError

datatype ('a, 's) result = Return 'a 's | Throw error 's

fun forEach :: "('a \<Rightarrow> 's \<Rightarrow> (unit, 's) result) \<Rightarrow> 'a list \<Rightarrow> 's \<Rightarrow> (unit, 's) result" where
  "forEach f [] s = Return () s"
| "forEach f (x # xs) s =
     (case f x s of
        Return u s' \<Rightarrow> forEach f xs s'
      | Throw e s' \<Rightarrow> Throw e s')"

text \<open>Sequencing two calls, and reading a result.\<close>

definition then_do :: "(unit, 's) result \<Rightarrow> ('s \<Rightarrow> (unit, 's) result) \<Rightarrow> (unit, 's) result" where
  "then_do r f = (case r of Return u s \<Rightarrow> f s | Throw e s \<Rightarrow> Throw e s)"

definition returned :: "('a, 's) result \<Rightarrow> bool" where
  "returned r = (case r of Return a s \<Rightarrow> True | Throw e s \<Rightarrow> False)"

definition state_of :: "('a, 's) result \<Rightarrow> 's" where
  "state_of r = (case r of Return a s \<Rightarrow> s | Throw e s \<Rightarrow> s)"

section \<open>Extension registry (src/extensions/Extensions.ts)\<close>

subsection \<open>Data\<close>

text \<open>The enum \<open>ExtensionType\<close>; \<open>type_name\<close> gives the string value of each member.\<close>

datatype ExtensionType =
    Renderer | Application
  | WebGLPipes | WebGLPipesAdaptor | WebGLSystem
  | WebGPUPipes | WebGPUPipesAdaptor | WebGPUSystem
  | CanvasSystem | CanvasPipesAdaptor | CanvasPipes
  | Asset | LoadParser | ResolveParser | CacheParser | DetectionParser
  | MaskEffect
  | BlendMode

fun type_name :: "ExtensionType \<Rightarrow> string" where
  "type_name Renderer = ''renderer''"
| "type_name Application = ''application''"
| "type_name WebGLPipes = ''webgl-pipes''"
| "type_name WebGLPipesAdaptor = ''webgl-pipes-adaptor''"
| "type_name WebGLSystem = ''webgl-system''"
| "type_name WebGPUPipes = ''webgpu-pipes''"
| "type_name WebGPUPipesAdaptor = ''webgpu-pipes-adaptor''"
| "type_name WebGPUSystem = ''webgpu-system''"
| "type_name CanvasSystem = ''canvas-system''"
| "type_name CanvasPipesAdaptor = ''canvas-pipes-adaptor''"
| "type_name CanvasPipes = ''canvas-pipes''"
| "type_name Asset = ''asset''"
| "type_name LoadParser = ''load-parser''"
| "type_name ResolveParser = ''resolve-parser''"
| "type_name CacheParser = ''cache-parser''"
| "type_name DetectionParser = ''detection-parser''"
| "type_name MaskEffect = ''mask-effect''"
| "type_name BlendMode = ''blend-mode''"

text \<open>
  The field \<open>type\<close> of a metadata object or of a descriptor: a single member of the enum (a
  string), an array of members, or missing (\<open>undefined\<close>).
\<close>

datatype type_field = TypeUndefined | TypeString ExtensionType | TypeArray "ExtensionType list"

text \<open>\<open>interface ExtensionMetadataDetails { type; name?; priority? }\<close>\<close>

record ExtensionMetadataDetails =
  md_type :: type_field
  md_name :: "string option"
  md_priority :: "int option"

text \<open>
  \<open>type ExtensionMetadata = ExtensionType | ExtensionMetadataDetails\<close>: a bare member of the
  enum (for which \<open>typeof\<close> is \<open>'string'\<close>) or a details object.
\<close>

datatype ExtensionMetadata = MetaType ExtensionType | MetaDetails ExtensionMetadataDetails

text \<open>
  The values handed to \<open>add\<close> and \<open>remove\<close> (\<open>ExtensionFormatLoose | any\<close>) and stored as
  \<open>ref\<close>.  Functions (classes) and objects live on the heap and carry their identity, a
  natural number.  Both carry the properties visible on them that hold metadata, own ones
  first and inherited ones after them, as an association list from property name to value;
  \<open>normalizeExtension\<close> reads the one named \<open>extension\<close>.  An object carries in addition the
  fields of a descriptor (\<open>ExtensionFormatLoose\<close>): \<open>type\<close>, \<open>name\<close>, \<open>priority\<close> and \<open>ref\<close>
  (\<open>Undefined\<close> when missing).  Numbers are integers.
\<close>

datatype jsvalue =
    Undefined
  | Null
  | Bool bool
  | Num int
  | Str string
  | Class nat "(string \<times> ExtensionMetadata) list"
  | Object nat "(string \<times> ExtensionMetadata) list" type_field "string option" "int option" jsvalue

text \<open>\<open>interface ExtensionFormat\<close>, the normalized record.\<close>

record ExtensionFormat =
  ef_type :: type_field
  ef_name :: "string option"
  ef_priority :: "int option"
  ef_ref :: jsvalue

fun typeof :: "jsvalue \<Rightarrow> string" where
  "typeof Undefined = ''undefined''"
| "typeof Null = ''object''"
| "typeof (Bool b) = ''boolean''"
| "typeof (Num n) = ''number''"
| "typeof (Str s) = ''string''"
| "typeof (Class i ps) = ''function''"
| "typeof (Object i ps t n p r) = ''object''"

text \<open>
  \<open>ext.extension\<close>: \<open>None\<close> is \<open>undefined\<close>.  Reading a property of \<open>null\<close> or \<open>undefined\<close>
  throws; a primitive has no such property.
\<close>

fun get_extension :: "jsvalue \<Rightarrow> error + ExtensionMetadata option" where
  "get_extension Undefined = Inl TypeError"
| "get_extension Null = Inl TypeError"
| "get_extension (Class i ps) = Inr (map_of ps ''extension'')"
| "get_extension (Object i ps t n p r) = Inr (map_of ps ''extension'')"
| "get_extension v = Inr None"

text \<open>Truthiness of \<open>ext.extension\<close>: every member of the enum is a non-empty string.\<close>

fun truthy :: "ExtensionMetadata option \<Rightarrow> bool" where
  "truthy None = False"
| "truthy (Some m) = True"

text \<open>
  \<open>(typeof ext.extension !== 'object') ? { type: ext.extension } : ext.extension\<close>
\<close>

fun metadata_details :: "ExtensionMetadata \<Rightarrow> ExtensionMetadataDetails" where
  "metadata_details (MetaType t) = \<lparr>md_type = TypeString t, md_name = None, md_priority = None\<rparr>"
| "metadata_details (MetaDetails d) = d"

text \<open>\<open>{ ...metadata, ref: ext }\<close>\<close>

definition spread_metadata :: "ExtensionMetadataDetails \<Rightarrow> jsvalue \<Rightarrow> ExtensionFormat" where
  "spread_metadata d ext =
     \<lparr>ef_type = md_type d, ef_name = md_name d, ef_priority = md_priority d, ef_ref = ext\<rparr>"

text \<open>\<open>{ ...ext }\<close> for an object; the other values have no such fields.\<close>

fun spread_object :: "jsvalue \<Rightarrow> ExtensionFormat" where
  "spread_object (Object i ps t n p r) =
     \<lparr>ef_type = t, ef_name = n, ef_priority = p, ef_ref = r\<rparr>"
| "spread_object v =
     \<lparr>ef_type = TypeUndefined, ef_name = None, ef_priority = None, ef_ref = Undefined\<rparr>"

text \<open>\<open>if (typeof ext.type === 'string') ext.type = [ext.type]\<close>\<close>

fun type_to_array :: "ExtensionFormat \<Rightarrow> ExtensionFormat" where
  "type_to_array ext =
     (case ef_type ext of
        TypeString t \<Rightarrow> ext\<lparr>ef_type := TypeArray [t]\<rparr>
      | _ \<Rightarrow> ext)"

subsection \<open>normalizeExtension and normalizeExtensionPriority\<close>

text \<open>
  The checks are those of the source, in its order.  The throw of
  \<open>'Extension class must have an extension object'\<close> stands between the markers
  \<open>#if _DEBUG\<close> and \<open>#endif\<close>, which are comments of the source file; the model is the file as
  written, with the check in place.
\<close>

definition normalizeExtension :: "jsvalue \<Rightarrow> error + ExtensionFormat" where
  "normalizeExtension ext =
     (if typeof ext = ''function'' \<or> typeof ext = ''object'' then
        (case get_extension ext of
           Inl e \<Rightarrow> Inl e
         | Inr m \<Rightarrow>
             if typeof ext = ''function'' \<or> truthy m then
               (case m of
                  None \<Rightarrow> Inl (Error ''Extension class must have an extension object'')
                | Some md \<Rightarrow> Inr (type_to_array (spread_metadata (metadata_details md) ext)))
             else Inr (type_to_array (spread_object ext)))
      else Inl (Error ''Invalid extension type''))"

definition normalizeExtensionPriority :: "jsvalue \<Rightarrow> int \<Rightarrow> error + int" where
  "normalizeExtensionPriority ext defaultPriority =
     (case normalizeExtension ext of
        Inl e \<Rightarrow> Inl e
      | Inr f \<Rightarrow> Inr (case ef_priority f of None \<Rightarrow> defaultPriority | Some p \<Rightarrow> p))"

subsection \<open>The registry\<close>

text \<open>
  A handler is a callback with effects outside the registry: it transforms a world \<open>'w\<close>
  (what its closure captured) or throws.  The registry object holds \<open>_addHandlers\<close>,
  \<open>_removeHandlers\<close> and \<open>_queue\<close>, each keyed by extension type.  Handlers that call back
  into the registry are outside the model.
\<close>

type_synonym 'w ExtensionHandler = "ExtensionFormat \<Rightarrow> 'w \<Rightarrow> (unit, 'w) result"

record 'w extensions =
  addHandlers :: "ExtensionType \<Rightarrow> 'w ExtensionHandler option"
  removeHandlers :: "ExtensionType \<Rightarrow> 'w ExtensionHandler option"
  queue :: "ExtensionType \<Rightarrow> ExtensionFormat list option"

text \<open>\<open>extensions.map(normalizeExtension)\<close>: the first throw ends the call.\<close>

fun map_normalize :: "jsvalue list \<Rightarrow> error + ExtensionFormat list" where
  "map_normalize [] = Inr []"
| "map_normalize (x # xs) =
     (case normalizeExtension x of
        Inl e \<Rightarrow> Inl e
      | Inr f \<Rightarrow> (case map_normalize xs of Inl e \<Rightarrow> Inl e | Inr fs \<Rightarrow> Inr (f # fs)))"

text \<open>Running a handler of the registry on the world.\<close>

definition call_handler ::
  "'w ExtensionHandler \<Rightarrow> ExtensionFormat \<Rightarrow> 'w extensions \<times> 'w
     \<Rightarrow> (unit, 'w extensions \<times> 'w) result" where
  "call_handler h ext s =
     (case h ext (snd s) of
        Return u w' \<Rightarrow> Return () (fst s, w')
      | Throw e w' \<Rightarrow> Throw e (fst s, w'))"

text \<open>
  \<open>ext.type.forEach(...)\<close>: \<open>forEach\<close> of \<open>undefined\<close> throws, and a string has no
  \<open>forEach\<close>.
\<close>

definition type_forEach ::
  "(ExtensionType \<Rightarrow> 's \<Rightarrow> (unit, 's) result) \<Rightarrow> ExtensionFormat \<Rightarrow> 's \<Rightarrow> (unit, 's) result" where
  "type_forEach f ext s =
     (case ef_type ext of
        TypeArray ts \<Rightarrow> forEach f ts s
      | _ \<Rightarrow> Throw TypeError s)"

text \<open>The body of the inner loop of \<open>add\<close>.\<close>

definition add_type ::
  "ExtensionFormat \<Rightarrow> ExtensionType \<Rightarrow> 'w extensions \<times> 'w \<Rightarrow> (unit, 'w extensions \<times> 'w) result" where
  "add_type ext ty s =
     (case addHandlers (fst s) ty of
        None \<Rightarrow>
          Return ()
            ((fst s)\<lparr>queue := (queue (fst s))
                (ty \<mapsto> (case queue (fst s) ty of None \<Rightarrow> [] | Some q \<Rightarrow> q) @ [ext])\<rparr>, snd s)
      | Some h \<Rightarrow> call_handler h ext s)"

definition add :: "jsvalue list \<Rightarrow> 'w extensions \<times> 'w \<Rightarrow> (unit, 'w extensions \<times> 'w) result" where
  "add items s =
     (case map_normalize items of
        Inl e \<Rightarrow> Throw e s
      | Inr exts \<Rightarrow> forEach (\<lambda>ext. type_forEach (add_type ext) ext) exts s)"

text \<open>\<open>this._removeHandlers[type]?.(ext)\<close>\<close>

definition remove_type ::
  "ExtensionFormat \<Rightarrow> ExtensionType \<Rightarrow> 'w extensions \<times> 'w \<Rightarrow> (unit, 'w extensions \<times> 'w) result" where
  "remove_type ext ty s =
     (case removeHandlers (fst s) ty of
        None \<Rightarrow> Return () s
      | Some h \<Rightarrow> call_handler h ext s)"

definition remove :: "jsvalue list \<Rightarrow> 'w extensions \<times> 'w \<Rightarrow> (unit, 'w extensions \<times> 'w) result" where
  "remove items s =
     (case map_normalize items of
        Inl e \<Rightarrow> Throw e s
      | Inr exts \<Rightarrow> forEach (\<lambda>ext. type_forEach (remove_type ext) ext) exts s)"

text \<open>
  \<open>handle\<close>.  The check for an installed handler is the source's, between \<open>#if _DEBUG\<close> and
  \<open>#endif\<close>.  The queue itself is not changed while it is drained; \<open>delete queue[type]\<close>
  runs after the loop, so a throwing \<open>onAdd\<close> leaves it in place.
\<close>

definition handle ::
  "ExtensionType \<Rightarrow> 'w ExtensionHandler \<Rightarrow> 'w ExtensionHandler \<Rightarrow> 'w extensions \<times> 'w
     \<Rightarrow> (unit, 'w extensions \<times> 'w) result" where
  "handle ty onAdd onRemove s =
     (if addHandlers (fst s) ty \<noteq> None \<or> removeHandlers (fst s) ty \<noteq> None then
        Throw (Error (''Extension type '' @ type_name ty @ '' already has a handler'')) s
      else
        let reg = (fst s)\<lparr>addHandlers := (addHandlers (fst s))(ty \<mapsto> onAdd),
                          removeHandlers := (removeHandlers (fst s))(ty \<mapsto> onRemove)\<rparr>
        in (case queue reg ty of
              None \<Rightarrow> Return () (reg, snd s)
            | Some q \<Rightarrow>
                (case forEach onAdd q (snd s) of
                   Return u w' \<Rightarrow> Return () (reg\<lparr>queue := (queue reg)(ty := None)\<rparr>, w')
                 | Throw e w' \<Rightarrow> Throw e (reg, w'))))"

subsection \<open>handleByList\<close>

text \<open>
  \<open>list.includes(x)\<close> compares with SameValueZero and \<open>list.indexOf(x)\<close> with strict
  equality: functions and objects by identity, primitives by value (the two differ only on
  \<open>NaN\<close>, which is not among the values here).
\<close>

fun same_value :: "jsvalue \<Rightarrow> jsvalue \<Rightarrow> bool" where
  "same_value (Class i ps) b = (case b of Class j qs \<Rightarrow> i = j | _ \<Rightarrow> False)"
| "same_value (Object i ps t n p r) b = (case b of Object j qs t' n' p' r' \<Rightarrow> i = j | _ \<Rightarrow> False)"
| "same_value a b = (a = b)"

definition array_includes :: "jsvalue list \<Rightarrow> jsvalue \<Rightarrow> bool" where
  "array_includes list v = list_ex (\<lambda>x. same_value x v) list"

text \<open>
  \<open>const index = list.indexOf(v); if (index !== -1) list.splice(index, 1)\<close>: the first
  element equal to \<open>v\<close> is removed.
\<close>

fun splice_indexOf :: "jsvalue \<Rightarrow> jsvalue list \<Rightarrow> jsvalue list" where
  "splice_indexOf v [] = []"
| "splice_indexOf v (x # xs) = (if same_value x v then xs else x # splice_indexOf v xs)"

text \<open>
  \<open>Array.prototype.sort(compare)\<close>.  The language fixes that the sort is stable, that
  \<open>compare(a, b) < 0\<close> puts \<open>a\<close> first, \<open>> 0\<close> puts \<open>b\<close> first and \<open>0\<close> keeps their
  order, and that \<open>undefined\<close> elements go last without \<open>compare\<close> being called on them;
  which pairs of the other elements are compared, and in which order, is left to the
  engine.  The model sorts the elements other than \<open>undefined\<close> by a stable insertion sort
  that calls \<open>compare\<close> on every pair it needs and throws what \<open>compare\<close> throws, and puts
  the \<open>undefined\<close> elements after them.  Among two or more elements other than
  \<open>undefined\<close> every one takes part in a comparison, as in any comparison sort.
\<close>

fun sort_insert :: "('a \<Rightarrow> 'a \<Rightarrow> error + int) \<Rightarrow> 'a \<Rightarrow> 'a list \<Rightarrow> error + 'a list" where
  "sort_insert compare x [] = Inr [x]"
| "sort_insert compare x (y # ys) =
     (case compare x y of
        Inl e \<Rightarrow> Inl e
      | Inr c \<Rightarrow>
          if c \<le> 0 then Inr (x # y # ys)
          else (case sort_insert compare x ys of Inl e \<Rightarrow> Inl e | Inr zs \<Rightarrow> Inr (y # zs)))"

fun insertion_sort :: "('a \<Rightarrow> 'a \<Rightarrow> error + int) \<Rightarrow> 'a list \<Rightarrow> error + 'a list" where
  "insertion_sort compare [] = Inr []"
| "insertion_sort compare (x # xs) =
     (case insertion_sort compare xs of
        Inl e \<Rightarrow> Inl e
      | Inr ys \<Rightarrow> sort_insert compare x ys)"

definition array_sort ::
  "(jsvalue \<Rightarrow> jsvalue \<Rightarrow> error + int) \<Rightarrow> jsvalue list \<Rightarrow> error + jsvalue list" where
  "array_sort compare xs =
     (case insertion_sort compare (filter (\<lambda>x. x \<noteq> Undefined) xs) of
        Inl e \<Rightarrow> Inl e
      | Inr ys \<Rightarrow> Inr (ys @ filter (\<lambda>x. x = Undefined) xs))"

text \<open>
  The comparator of \<open>handleByList\<close>:
  \<open>(a, b) => normalizeExtensionPriority(b, defaultPriority)
     - normalizeExtensionPriority(a, defaultPriority)\<close>.
  Its arguments are elements of the list, that is the refs.
\<close>

definition priority_compare :: "int \<Rightarrow> jsvalue \<Rightarrow> jsvalue \<Rightarrow> error + int" where
  "priority_compare defaultPriority a b =
     (case normalizeExtensionPriority b defaultPriority of
        Inl e \<Rightarrow> Inl e
      | Inr pb \<Rightarrow>
          (case normalizeExtensionPriority a defaultPriority of
             Inl e \<Rightarrow> Inl e
           | Inr pa \<Rightarrow> Inr (pb - pa)))"

text \<open>
  The two closures of \<open>handleByList\<close>; their world is the array \<open>list\<close> they captured.  When
  the comparator throws, the array has the new ref pushed; the order the engine left it in
  is not fixed by the language, and the model leaves it unsorted.
\<close>

definition byList_onAdd :: "int \<Rightarrow> jsvalue list ExtensionHandler" where
  "byList_onAdd defaultPriority extension list =
     (if array_includes list (ef_ref extension) then Return () list
      else
        (case array_sort (priority_compare defaultPriority) (list @ [ef_ref extension]) of
           Inl e \<Rightarrow> Throw e (list @ [ef_ref extension])
         | Inr sorted_list \<Rightarrow> Return () sorted_list))"

definition byList_onRemove :: "jsvalue list ExtensionHandler" where
  "byList_onRemove extension list = Return () (splice_indexOf (ef_ref extension) list)"

text \<open>\<open>handleByList(type, list, defaultPriority = -1)\<close>; \<open>None\<close> is the omitted argument.\<close>

definition handleByList ::
  "ExtensionType \<Rightarrow> int option \<Rightarrow> jsvalue list extensions \<times> jsvalue list
     \<Rightarrow> (unit, jsvalue list extensions \<times> jsvalue list) result" where
  "handleByList ty defaultPriority s =
     (let d = (case defaultPriority of None \<Rightarrow> - 1 | Some d \<Rightarrow> d)
      in handle ty (byList_onAdd d) byList_onRemove s)"

subsection \<open>The blend-mode classes (src/filters/blend-modes/NegationBlend.ts)\<close>

text \<open>
  \<open>NegationBlend\<close> and \<open>ExclusionBlend\<close> declare one static property, named \<open>extensions\<close>,
  and extend \<open>BlendModeFilter\<close>, which is not among the sources: the static properties they
  inherit are the argument \<open>inherited\<close>, and \<open>i\<close> is the identity of the class.
\<close>

definition NegationBlend :: "nat \<Rightarrow> (string \<times> ExtensionMetadata) list \<Rightarrow> jsvalue" where
  "NegationBlend i inherited =
     Class i ((''extensions'',
               MetaDetails \<lparr>md_type = TypeString BlendMode, md_name = Some ''negation'',
                            md_priority = None\<rparr>) # inherited)"

definition ExclusionBlend :: "nat \<Rightarrow> (string \<times> ExtensionMetadata) list \<Rightarrow> jsvalue" where
  "ExclusionBlend i inherited =
     Class i ((''extensions'',
               MetaDetails \<lparr>md_type = TypeString BlendMode, md_name = Some ''exclusion'',
                            md_priority = None\<rparr>) # inherited)"

subsection \<open>Notions used in the statements about the registry\<close>

text \<open>The registry as the module creates it: \<open>_addHandlers: {}, _removeHandlers: {}, _queue: {}\<close>.\<close>

definition new_extensions :: "'w extensions" where
  "new_extensions = \<lparr>addHandlers = Map.empty, removeHandlers = Map.empty, queue = Map.empty\<rparr>"

text \<open>The records waiting for a point: \<open>queue[type] || []\<close>.\<close>

definition pending :: "'w extensions \<Rightarrow> ExtensionType \<Rightarrow> ExtensionFormat list" where
  "pending reg ty = (case queue reg ty of None \<Rightarrow> [] | Some q \<Rightarrow> q)"

text \<open>The types a normalized record is registered under, with repetitions.\<close>

definition types_of :: "ExtensionFormat \<Rightarrow> ExtensionType list" where
  "types_of ext = (case ef_type ext of TypeArray ts \<Rightarrow> ts | _ \<Rightarrow> [])"

text \<open>A handler that appends the record it is called with to a log of calls.\<close>

definition record_call :: "ExtensionFormat list ExtensionHandler" where
  "record_call ext calls = Return () (calls @ [ext])"

text \<open>A handler that does nothing.\<close>

definition ignore_call :: "'w ExtensionHandler" where
  "ignore_call ext w = Return () w"

text \<open>A class that carries its metadata in the static property \<open>extension\<close>.\<close>

definition plugin_class :: "nat \<Rightarrow> ExtensionType \<Rightarrow> int option \<Rightarrow> jsvalue" where
  "plugin_class i ty p =
     Class i [(''extension'', MetaDetails \<lparr>md_type = TypeString ty, md_name = None, md_priority = p\<rparr>)]"

text \<open>
  An explicit descriptor \<open>{ type: ty, priority: p, ref: {} }\<close>; \<open>i\<close> is the identity of the
  descriptor and \<open>j\<close> that of the object it refers to, which has no properties.
\<close>

definition plain_object :: "nat \<Rightarrow> jsvalue" where
  "plain_object j = Object j [] TypeUndefined None None Undefined"

definition descriptor :: "nat \<Rightarrow> ExtensionType \<Rightarrow> int option \<Rightarrow> nat \<Rightarrow> jsvalue" where
  "descriptor i ty p j = Object i [] (TypeString ty) None p (plain_object j)"

section \<open>Display objects (the class DisplayObject)\<close>

subsection \<open>The heap\<close>

text \<open>
  Display objects and transforms are objects with identity: a display object refers to its
  parent, its mask and its transform, and two display objects can share one transform (as
  \<open>getLocalBounds\<close> arranges).  Both live in a store and are referred to by address; \<open>None\<close>
  is \<open>null\<close>.  Numbers are reals (\<open>_boundsID\<close> and \<open>_lastBoundsID\<close> integers, on which
  \<open>++\<close> is exact below \<open>2^53\<close>); the statements below use no law of arithmetic beyond
  that.

  \<open>Transform\<close>, \<open>Bounds\<close>, \<open>Rectangle\<close>, \<open>Matrix\<close>, \<open>EventEmitter\<close> and the class of the
  parents, \<open>Container\<close>, are not among the sources.  A transform is what the setter of
  \<open>transform\<close> reads of it (position, scale, rotation, skew, pivot) and, as \<open>matrices\<close>, the
  rest of its state; a \<open>Bounds\<close> is a value of the type \<open>'b\<close>.
\<close>

type_synonym ref = nat

type_synonym Point = "real \<times> real"

type_synonym Rectangle = "real \<times> real \<times> real \<times> real"

record 'm Transform =
  position :: Point
  scale :: Point
  rotation :: real
  skew :: Point
  pivot :: Point
  matrices :: 'm

text \<open>
  The fields of a display object.  A leading underscore of the source is written \<open>u_\<close>.
  \<open>_currentBounds\<close>, \<open>hitArea\<close>, \<open>interactive\<close> and \<open>interactiveChildren\<close> are the
  properties that only \<open>destroy\<close> assigns.  \<open>_lastSortedIndex\<close>, \<open>_zIndex\<close>,
  \<open>_enabledFilters\<close> and \<open>isSprite\<close> are left out: no method modelled here reads or writes
  them.  Three fields belong to other classes: \<open>maskObject\<close> (of a \<open>MaskData\<close>, \<open>undefined\<close>
  on a display object), \<open>children\<close> (of a \<open>Container\<close>) and \<open>eventsCount\<close> (the number of
  listeners the \<open>EventEmitter\<close> holds).
\<close>

record 'b DisplayObject =
  tempDisplayObjectParent :: "ref option"
  u_transform :: "ref option"
  u_alpha :: real
  u_visible :: bool
  u_renderable :: bool
  parent :: "ref option"
  worldAlpha :: real
  filterArea :: "Rectangle option"
  filters :: "ref list option"
  u_bounds :: "'b option"
  u_boundsID :: int
  u_lastBoundsID :: int
  u_boundsRect :: "Rectangle option"
  u_localBoundsRect :: "Rectangle option"
  u_mask :: "ref option"
  u_destroyed :: bool
  isMask :: bool
  u_currentBounds :: "'b option"
  hitArea :: "Rectangle option"
  interactive :: bool
  interactiveChildren :: bool
  maskObject :: "ref option"
  children :: "ref list"
  eventsCount :: nat

text \<open>
  The store.  \<open>next_object\<close> and \<open>next_transform\<close> are the addresses the next \<open>new\<close> returns,
  \<open>pixiChanged\<close> is the truth value of the global \<open>window.pixiChanged\<close>, and
  \<open>calculateBounds_calls\<close> records on which objects \<open>calculateBounds\<close> was called, in order.
\<close>

record ('m, 'b) heap =
  objects :: "ref \<Rightarrow> 'b DisplayObject"
  transforms :: "ref \<Rightarrow> 'm Transform"
  next_object :: ref
  next_transform :: ref
  pixiChanged :: bool
  calculateBounds_calls :: "ref list"

text \<open>
  What the classes outside the sources do, taken as parameters:
  \<open>new Transform()\<close> and \<open>new Bounds()\<close>;
  \<open>Transform.updateTransform(parentTransform)\<close>, which gives the new state of the transform
  it is called on from the parent transform (first argument) and its own state (second);
  \<open>Bounds.getRectangle(rect)\<close>, which writes the accumulated rectangle into \<open>rect\<close> and
  returns it; \<open>Matrix.apply\<close> and \<open>Matrix.applyInverse\<close> of the world matrix of a transform,
  the second of which may fail.  \<open>calculateBounds\<close> is the method subclasses override; that
  of \<open>DisplayObject\<close> itself is \<open>base_calculateBounds\<close>.
\<close>

record ('m, 'b) env =
  Transform_new :: "'m Transform"
  Transform_updateTransform :: "'m Transform \<Rightarrow> 'm Transform \<Rightarrow> 'm Transform"
  Bounds_new :: 'b
  Bounds_getRectangle :: "'b \<Rightarrow> Rectangle"
  Matrix_apply :: "'m Transform \<Rightarrow> Point \<Rightarrow> Point"
  Matrix_applyInverse :: "'m Transform \<Rightarrow> Point \<Rightarrow> error + Point"
  calculateBounds :: "ref \<Rightarrow> ('m, 'b) heap \<Rightarrow> (unit, ('m, 'b) heap) result"

definition base_calculateBounds :: "ref \<Rightarrow> ('m, 'b) heap \<Rightarrow> (unit, ('m, 'b) heap) result" where
  "base_calculateBounds this h = Return () h"

definition update_object ::
  "ref \<Rightarrow> ('b DisplayObject \<Rightarrow> 'b DisplayObject) \<Rightarrow> ('m, 'b) heap \<Rightarrow> ('m, 'b) heap" where
  "update_object r f h = h\<lparr>objects := (objects h)(r := f (objects h r))\<rparr>"

subsection \<open>Constructor and setters\<close>

text \<open>\<open>new DisplayObject()\<close>: the constructor's assignments, on a fresh address.\<close>

definition new_DisplayObject :: "('m, 'b) env \<Rightarrow> ('m, 'b) heap \<Rightarrow> ref \<times> ('m, 'b) heap" where
  "new_DisplayObject E h =
     (next_object h,
      h\<lparr>objects := (objects h)(next_object h :=
           \<lparr>tempDisplayObjectParent = None,
            u_transform = Some (next_transform h),
            u_alpha = 1,
            u_visible = True,
            u_renderable = True,
            parent = None,
            worldAlpha = 1,
            filterArea = None,
            filters = None,
            u_bounds = Some (Bounds_new E),
            u_boundsID = 0,
            u_lastBoundsID = - 1,
            u_boundsRect = None,
            u_localBoundsRect = None,
            u_mask = None,
            u_destroyed = False,
            isMask = False,
            u_currentBounds = None,
            hitArea = None,
            interactive = False,
            interactiveChildren = False,
            maskObject = None,
            children = [],
            eventsCount = 0\<rparr>),
         transforms := (transforms h)(next_transform h := Transform_new E),
         next_object := next_object h + 1,
         next_transform := next_transform h + 1\<rparr>)"

text \<open>
  The setter of \<open>transform\<close>.  \<open>||\<close> evaluates its right operand only when
  \<open>window.pixiChanged\<close> is falsy; the operand reads \<open>this._transform.position\<close> and
  \<open>value.position\<close>, which throws when either is \<open>null\<close>.
\<close>

definition transform_differs :: "'m Transform \<Rightarrow> 'm Transform \<Rightarrow> bool" where
  "transform_differs a b \<longleftrightarrow>
     fst (position a) \<noteq> fst (position b) \<or> snd (position a) \<noteq> snd (position b) \<or>
     fst (scale a) \<noteq> fst (scale b) \<or> snd (scale a) \<noteq> snd (scale b) \<or>
     rotation a \<noteq> rotation b \<or>
     fst (skew a) \<noteq> fst (skew b) \<or> snd (skew a) \<noteq> snd (skew b) \<or>
     fst (pivot a) \<noteq> fst (pivot b) \<or> snd (pivot a) \<noteq> snd (pivot b)"

definition set_transform :: "ref \<Rightarrow> ref option \<Rightarrow> ('m, 'b) heap \<Rightarrow> (unit, ('m, 'b) heap) result" where
  "set_transform this v h =
     (if pixiChanged h then Return () (update_object this (\<lambda>ob. ob\<lparr>u_transform := v\<rparr>) h)
      else
        (case u_transform (objects h this) of
           None \<Rightarrow> Throw TypeError h
         | Some t \<Rightarrow>
             (case v of
                None \<Rightarrow> Throw TypeError h
              | Some t' \<Rightarrow>
                  Return ()
                    (update_object this (\<lambda>ob. ob\<lparr>u_transform := v\<rparr>)
                       (h\<lparr>pixiChanged := transform_differs (transforms h t) (transforms h t')\<rparr>)))))"

text \<open>The setter of \<open>renderable\<close>.\<close>

definition set_renderable :: "ref \<Rightarrow> bool \<Rightarrow> ('m, 'b) heap \<Rightarrow> ('m, 'b) heap" where
  "set_renderable this v h =
     update_object this (\<lambda>ob. ob\<lparr>u_renderable := v\<rparr>)
       (h\<lparr>pixiChanged := (pixiChanged h \<or> u_renderable (objects h this) \<noteq> v)\<rparr>)"

text \<open>
  The getter \<open>_tempDisplayObjectParent\<close>: the field \<open>tempDisplayObjectParent\<close> of the object
  itself, filled with a new display object when it is \<open>null\<close>.
\<close>

definition get_tempDisplayObjectParent ::
  "('m, 'b) env \<Rightarrow> ref \<Rightarrow> ('m, 'b) heap \<Rightarrow> ref \<times> ('m, 'b) heap" where
  "get_tempDisplayObjectParent E this h =
     (case tempDisplayObjectParent (objects h this) of
        None \<Rightarrow>
          (fst (new_DisplayObject E h),
           update_object this (\<lambda>ob. ob\<lparr>tempDisplayObjectParent := Some (fst (new_DisplayObject E h))\<rparr>)
             (snd (new_DisplayObject E h)))
      | Some s \<Rightarrow> (s, h))"

subsection \<open>updateTransform and the bounds\<close>

text \<open>
  \<open>a.updateTransform(b)\<close> for the transforms referred to by \<open>a\<close> and \<open>b\<close>: a call on \<open>null\<close>
  throws, and so does \<open>Transform.updateTransform\<close> when it reads its argument \<open>null\<close>.
\<close>

definition call_updateTransform ::
  "('m, 'b) env \<Rightarrow> ref option \<Rightarrow> ref option \<Rightarrow> ('m, 'b) heap \<Rightarrow> (unit, ('m, 'b) heap) result" where
  "call_updateTransform E a b h =
     (case a of
        None \<Rightarrow> Throw TypeError h
      | Some t \<Rightarrow>
          (case b of
             None \<Rightarrow> Throw TypeError h
           | Some pt \<Rightarrow>
               Return ()
                 (h\<lparr>transforms := (transforms h)
                      (t := Transform_updateTransform E (transforms h pt) (transforms h t))\<rparr>)))"

definition updateTransform :: "('m, 'b) env \<Rightarrow> ref \<Rightarrow> ('m, 'b) heap \<Rightarrow> (unit, ('m, 'b) heap) result" where
  "updateTransform E this h =
     (let h1 = update_object this (\<lambda>ob. ob\<lparr>u_boundsID := u_boundsID ob + 1\<rparr>) h in
      case u_transform (objects h1 this) of
        None \<Rightarrow> Throw TypeError h1
      | Some t \<Rightarrow>
          (case parent (objects h1 this) of
             None \<Rightarrow> Throw TypeError h1
           | Some p \<Rightarrow>
               (case call_updateTransform E (Some t) (u_transform (objects h1 p)) h1 of
                  Throw e h2 \<Rightarrow> Throw e h2
                | Return u h2 \<Rightarrow>
                    Return ()
                      (update_object this
                         (\<lambda>ob. ob\<lparr>worldAlpha := u_alpha ob * worldAlpha (objects h2 p)\<rparr>) h2))))"

text \<open>
  \<open>_recursivePostUpdateTransform\<close> calls itself on the parent.  The first argument bounds
  the depth of the calls: the engine throws \<open>RangeError\<close> when its call stack is exhausted,
  which a cycle of parents brings about.  In \<open>this.transform.updateTransform(x)\<close> the method
  is looked up before \<open>x\<close> is evaluated, so a \<open>null\<close> transform throws before the getter
  \<open>_tempDisplayObjectParent\<close> runs.
\<close>

fun recursivePostUpdateTransform ::
  "('m, 'b) env \<Rightarrow> nat \<Rightarrow> ref \<Rightarrow> ('m, 'b) heap \<Rightarrow> (unit, ('m, 'b) heap) result" where
  "recursivePostUpdateTransform E 0 this h = Throw RangeError h"
| "recursivePostUpdateTransform E (Suc depth) this h =
     (case parent (objects h this) of
        Some p \<Rightarrow>
          (case recursivePostUpdateTransform E depth p h of
             Throw e h1 \<Rightarrow> Throw e h1
           | Return u h1 \<Rightarrow>
               (case parent (objects h1 this) of
                  None \<Rightarrow> Throw TypeError h1
                | Some p' \<Rightarrow>
                    call_updateTransform E (u_transform (objects h1 this))
                      (u_transform (objects h1 p')) h1))
      | None \<Rightarrow>
          (case u_transform (objects h this) of
             None \<Rightarrow> Throw TypeError h
           | Some t \<Rightarrow>
               call_updateTransform E (Some t)
                 (u_transform (objects (snd (get_tempDisplayObjectParent E this h))
                    (fst (get_tempDisplayObjectParent E this h))))
                 (snd (get_tempDisplayObjectParent E this h))))"

text \<open>
  The part of \<open>getBounds\<close>, \<open>toGlobal\<close> and \<open>toLocal\<close> that lends a parent to a root:
  \<open>this.parent = this._tempDisplayObjectParent; this.updateTransform(); this.parent = null\<close>.
  \<open>displayObjectUpdateTransform\<close> is \<open>DisplayObject.prototype.updateTransform\<close>.
\<close>

definition updateTransform_as_root ::
  "('m, 'b) env \<Rightarrow> ref \<Rightarrow> ('m, 'b) heap \<Rightarrow> (unit, ('m, 'b) heap) result" where
  "updateTransform_as_root E this h =
     (case updateTransform E this
             (update_object this
                (\<lambda>ob. ob\<lparr>parent := Some (fst (get_tempDisplayObjectParent E this h))\<rparr>)
                (snd (get_tempDisplayObjectParent E this h))) of
        Throw e h1 \<Rightarrow> Throw e h1
      | Return u h1 \<Rightarrow> Return () (update_object this (\<lambda>ob. ob\<lparr>parent := None\<rparr>) h1))"

text \<open>The first block of \<open>getBounds\<close>, run when \<open>skipUpdate\<close> is falsy.\<close>

definition getBounds_update ::
  "('m, 'b) env \<Rightarrow> nat \<Rightarrow> ref \<Rightarrow> ('m, 'b) heap \<Rightarrow> (unit, ('m, 'b) heap) result" where
  "getBounds_update E depth this h =
     (case parent (objects h this) of
        None \<Rightarrow> updateTransform_as_root E this h
      | Some p \<Rightarrow>
          (case recursivePostUpdateTransform E depth this h of
             Throw e h1 \<Rightarrow> Throw e h1
           | Return u h1 \<Rightarrow> updateTransform E this h1))"

text \<open>
  The second block:
  \<open>if (this._boundsID !== this._lastBoundsID) { this.calculateBounds(); this._lastBoundsID = this._boundsID; }\<close>
\<close>

definition getBounds_calculate ::
  "('m, 'b) env \<Rightarrow> ref \<Rightarrow> ('m, 'b) heap \<Rightarrow> (unit, ('m, 'b) heap) result" where
  "getBounds_calculate E this h =
     (if u_boundsID (objects h this) \<noteq> u_lastBoundsID (objects h this) then
        (case calculateBounds E this
                (h\<lparr>calculateBounds_calls := calculateBounds_calls h @ [this]\<rparr>) of
           Throw e h1 \<Rightarrow> Throw e h1
         | Return u h1 \<Rightarrow>
             Return ()
               (update_object this (\<lambda>ob. ob\<lparr>u_lastBoundsID := u_boundsID ob\<rparr>) h1))
      else Return () h)"

text \<open>
  The last block.  The argument \<open>rect\<close> says whether the caller passed a rectangle; without
  one the result is written into \<open>this._boundsRect\<close>, created when \<open>null\<close>.  The returned
  value is the content of the rectangle that was written.
\<close>

definition getBounds_rectangle ::
  "('m, 'b) env \<Rightarrow> ref \<Rightarrow> bool \<Rightarrow> ('m, 'b) heap \<Rightarrow> (Rectangle, ('m, 'b) heap) result" where
  "getBounds_rectangle E this rect h =
     (if rect then
        (case u_bounds (objects h this) of
           None \<Rightarrow> Throw TypeError h
         | Some b \<Rightarrow> Return (Bounds_getRectangle E b) h)
      else
        (let h1 = (case u_boundsRect (objects h this) of
                     None \<Rightarrow> update_object this (\<lambda>ob. ob\<lparr>u_boundsRect := Some (0, 0, 0, 0)\<rparr>) h
                   | Some r \<Rightarrow> h)
         in case u_bounds (objects h1 this) of
              None \<Rightarrow> Throw TypeError h1
            | Some b \<Rightarrow>
                Return (Bounds_getRectangle E b)
                  (update_object this
                     (\<lambda>ob. ob\<lparr>u_boundsRect := Some (Bounds_getRectangle E b)\<rparr>) h1)))"

definition getBounds ::
  "('m, 'b) env \<Rightarrow> nat \<Rightarrow> ref \<Rightarrow> bool \<Rightarrow> bool \<Rightarrow> ('m, 'b) heap
     \<Rightarrow> (Rectangle, ('m, 'b) heap) result" where
  "getBounds E depth this skipUpdate rect h =
     (case (if skipUpdate then Return () h else getBounds_update E depth this h) of
        Throw e h1 \<Rightarrow> Throw e h1
      | Return u h1 \<Rightarrow>
          (case getBounds_calculate E this h1 of
             Throw e h2 \<Rightarrow> Throw e h2
           | Return u h2 \<Rightarrow> getBounds_rectangle E this rect h2))"


subsection \<open>toGlobal and toLocal\<close>




subsection \<open>The mask and destroy\<close>

text \<open>
  \<open>const maskObject = this._mask.maskObject || this._mask;
    maskObject.renderable = v; maskObject.isMask = w\<close>
\<close>

definition mark_mask :: "ref \<Rightarrow> bool \<Rightarrow> bool \<Rightarrow> ('m, 'b) heap \<Rightarrow> ('m, 'b) heap" where
  "mark_mask m v w h =
     (let mo = (case maskObject (objects h m) of None \<Rightarrow> m | Some x \<Rightarrow> x)
      in update_object mo (\<lambda>ob. ob\<lparr>isMask := w\<rparr>) (set_renderable mo v h))"

text \<open>The setter of \<open>mask\<close>.\<close>

definition set_mask :: "ref \<Rightarrow> ref option \<Rightarrow> ('m, 'b) heap \<Rightarrow> ('m, 'b) heap" where
  "set_mask this v h =
     (let h1 = h\<lparr>pixiChanged := True\<rparr>;
          h2 = (case u_mask (objects h1 this) of
                  None \<Rightarrow> h1
                | Some m \<Rightarrow> mark_mask m True False h1);
          h3 = update_object this (\<lambda>ob. ob\<lparr>u_mask := v\<rparr>) h2
      in case u_mask (objects h3 this) of
           None \<Rightarrow> h3
         | Some m \<Rightarrow> mark_mask m False True h3)"

text \<open>
  Modelled from the spec: \<open>Container.removeChild\<close>, which is not among the sources.  It takes
  the child out of the child collection of the container.
\<close>

definition removeChild :: "ref \<Rightarrow> ref \<Rightarrow> ('m, 'b) heap \<Rightarrow> ('m, 'b) heap" where
  "removeChild container child h =
     update_object container (\<lambda>ob. ob\<lparr>children := removeAll child (children ob)\<rparr>) h"

text \<open>
  Modelled from the spec: \<open>EventEmitter.removeAllListeners\<close>, which is not among the sources.
  It leaves the object without listeners.
\<close>

definition removeAllListeners :: "ref \<Rightarrow> ('m, 'b) heap \<Rightarrow> ('m, 'b) heap" where
  "removeAllListeners this h = update_object this (\<lambda>ob. ob\<lparr>eventsCount := 0\<rparr>) h"

text \<open>\<open>destroy\<close>.  \<open>this.transform = null\<close> runs the setter of \<open>transform\<close>.\<close>

definition destroy :: "ref \<Rightarrow> ('m, 'b) heap \<Rightarrow> (unit, ('m, 'b) heap) result" where
  "destroy this h =
     (let h1 = (case parent (objects h this) of
                  None \<Rightarrow> h
                | Some p \<Rightarrow> removeChild p this h);
          h2 = removeAllListeners this h1
      in case set_transform this None h2 of
           Throw e h3 \<Rightarrow> Throw e h3
         | Return u h3 \<Rightarrow>
             Return ()
               (update_object this
                  (\<lambda>ob. ob\<lparr>parent := None,
                          u_bounds := None,
                          u_currentBounds := None,
                          u_mask := None,
                          filters := None,
                          filterArea := None,
                          hitArea := None,
                          interactive := False,
                          interactiveChildren := False,
                          u_destroyed := True\<rparr>) h3))"

subsection \<open>Notions used in the statements about display objects and in their proofs\<close>

text \<open>
  A store with nothing allocated, and the objects made in it by \<open>new DisplayObject()\<close>: the
  first gets the address \<open>0\<close>, the second \<open>1\<close>, and their transforms likewise.
\<close>

definition blank_object :: "'b DisplayObject" where
  "blank_object =
     \<lparr>tempDisplayObjectParent = None, u_transform = None, u_alpha = 0, u_visible = False,
      u_renderable = False, parent = None, worldAlpha = 0, filterArea = None, filters = None,
      u_bounds = None, u_boundsID = 0, u_lastBoundsID = 0, u_boundsRect = None,
      u_localBoundsRect = None, u_mask = None, u_destroyed = False, isMask = False,
      u_currentBounds = None, hitArea = None, interactive = False, interactiveChildren = False,
      maskObject = None, children = [], eventsCount = 0\<rparr>"

definition empty_heap :: "'m Transform \<Rightarrow> ('m, 'b) heap" where
  "empty_heap t =
     \<lparr>objects = (\<lambda>r. blank_object), transforms = (\<lambda>r. t), next_object = 0, next_transform = 0,
      pixiChanged = False, calculateBounds_calls = []\<rparr>"

text \<open>
  An instance of the parameters: the matrices of a transform are a pair of offsets, the
  local and the world one, \<open>updateTransform\<close> adds the world offset of the parent to the
  local offset, and a \<open>Bounds\<close> is the rectangle it has accumulated.
\<close>

definition offset_transform :: "Point \<Rightarrow> (Point \<times> Point) Transform" where
  "offset_transform p =
     \<lparr>position = p, scale = (1, 1), rotation = 0, skew = (0, 0), pivot = (0, 0),
      matrices = (p, p)\<rparr>"

definition offset_env :: "(Point \<times> Point, Rectangle) env" where
  "offset_env =
     \<lparr>Transform_new = offset_transform (0, 0),
      Transform_updateTransform =
        (\<lambda>pt t. t\<lparr>matrices := (position t,
                     (fst (position t) + fst (snd (matrices pt)),
                      snd (position t) + snd (snd (matrices pt))))\<rparr>),
      Bounds_new = (0, 0, 0, 0),
      Bounds_getRectangle = (\<lambda>b. b),
      Matrix_apply = (\<lambda>t q. (fst q + fst (snd (matrices t)), snd q + snd (snd (matrices t)))),
      Matrix_applyInverse =
        (\<lambda>t q. Inr (fst q - fst (snd (matrices t)), snd q - snd (snd (matrices t)))),
      calculateBounds = base_calculateBounds\<rparr>"


text \<open>Two display objects, both detached.\<close>

definition two_objects :: "(Point \<times> Point, Rectangle) heap" where
  "two_objects = snd (new_DisplayObject offset_env (snd (new_DisplayObject offset_env
     (empty_heap (offset_transform (0, 0))))))"

text \<open>
  The same with \<open>1\<close> a child of \<open>0\<close>, the child half transparent and the parent with a world
  alpha of one half.
\<close>

definition parent_and_child :: "(Point \<times> Point, Rectangle) heap" where
  "parent_and_child =
     update_object 1 (\<lambda>ob. ob\<lparr>parent := Some 0, u_alpha := 1 / 2\<rparr>)
       (update_object 0 (\<lambda>ob. ob\<lparr>children := [1], worldAlpha := 1 / 2\<rparr>) two_objects)"












section \<open>Properties of the registry\<close>

subsection \<open>Auxiliary facts\<close>

lemma add_type_effect:
  assumes "add_type ext ty s = Return () s'" and "addHandlers (fst s) X = None"
  shows "addHandlers (fst s') = addHandlers (fst s) \<and>
         removeHandlers (fst s') = removeHandlers (fst s) \<and>
         pending (fst s') X = pending (fst s) X @ (if ty = X then [ext] else [])"
  using assms
  by (auto simp: add_type_def call_handler_def pending_def split: option.splits result.splits)

lemma forEach_add_type_effect:
  assumes "forEach (add_type ext) ts s = Return () s'" and "addHandlers (fst s) X = None"
  shows "addHandlers (fst s') = addHandlers (fst s) \<and>
         removeHandlers (fst s') = removeHandlers (fst s) \<and>
         pending (fst s') X = pending (fst s) X @ replicate (count_list ts X) ext"
  using assms
proof (induction ts arbitrary: s)
  case Nil
  then show ?case by simp
next
  case (Cons t ts)
  from Cons.prems(1) obtain s1 where s1: "add_type ext t s = Return () s1"
      and rest: "forEach (add_type ext) ts s1 = Return () s'"
    by (auto split: result.splits)
  from add_type_effect [OF s1 Cons.prems(2)]
  have e1: "addHandlers (fst s1) = addHandlers (fst s)"
      "removeHandlers (fst s1) = removeHandlers (fst s)"
      "pending (fst s1) X = pending (fst s) X @ (if t = X then [ext] else [])"
    by simp_all
  from e1(1) Cons.prems(2) have "addHandlers (fst s1) X = None" by simp
  from Cons.IH [OF rest this] e1 show ?case
    by (auto simp: replicate_append_same)
qed

lemma add_single_effect:
  assumes "add [A] s = Return () s'" and "normalizeExtension A = Inr a"
    and "addHandlers (fst s) X = None"
  shows "addHandlers (fst s') = addHandlers (fst s) \<and>
         removeHandlers (fst s') = removeHandlers (fst s) \<and>
         pending (fst s') X = pending (fst s) X @ replicate (count_list (types_of a) X) a"
proof -
  from assms(1,2) have "type_forEach (add_type a) a s = Return () s'"
    by (simp add: add_def split: result.splits)
  then have "forEach (add_type a) (types_of a) s = Return () s'"
    by (simp add: type_forEach_def types_of_def split: type_field.splits)
  from forEach_add_type_effect [OF this assms(3)] show ?thesis .
qed

lemma handle_fresh:
  assumes "addHandlers (fst s) ty = None" and "removeHandlers (fst s) ty = None"
  shows "handle ty onAdd onRemove s =
     (case forEach onAdd (pending (fst s) ty) (snd s) of
        Return u w' \<Rightarrow>
          Return () ((fst s)\<lparr>addHandlers := (addHandlers (fst s))(ty \<mapsto> onAdd),
                             removeHandlers := (removeHandlers (fst s))(ty \<mapsto> onRemove),
                             queue := (queue (fst s))(ty := None)\<rparr>, w')
      | Throw e w' \<Rightarrow>
          Throw e ((fst s)\<lparr>addHandlers := (addHandlers (fst s))(ty \<mapsto> onAdd),
                            removeHandlers := (removeHandlers (fst s))(ty \<mapsto> onRemove)\<rparr>, w'))"
proof (cases "queue (fst s) ty")
  case None
  then have "(queue (fst s))(ty := None) = queue (fst s)" by (simp add: fun_upd_idem)
  with None assms show ?thesis
    by (simp add: handle_def pending_def Let_def)
next
  case (Some q)
  with assms show ?thesis
    by (simp add: handle_def pending_def Let_def split: result.splits)
qed

lemma map_normalize_throws:
  "x \<in> set items \<Longrightarrow> normalizeExtension x = Inl e \<Longrightarrow> \<exists>e'. map_normalize items = Inl e'"
  by (induction items) (auto split: sum.splits)

lemma normalize_class_without_extension:
  "map_of ps ''extension'' = None \<Longrightarrow>
   normalizeExtension (Class i ps) = Inl (Error ''Extension class must have an extension object'')"
  by (simp add: normalizeExtension_def)

lemma sort_insert_insort:
  assumes "\<forall>y\<in>set (x # ys). normalizeExtensionPriority y d = Inr (p y)"
  shows "sort_insert (priority_compare d) x ys = Inr (insort_key (\<lambda>v. - p v) x ys)"
  using assms by (induction ys) (auto simp: priority_compare_def)

lemma insertion_sort_sort_key:
  assumes "\<forall>y\<in>set xs. normalizeExtensionPriority y d = Inr (p y)"
  shows "insertion_sort (priority_compare d) xs = Inr (sort_key (\<lambda>v. - p v) xs)"
  using assms
proof (induction xs)
  case Nil
  then show ?case by simp
next
  case (Cons x xs)
  then have "insertion_sort (priority_compare d) xs = Inr (sort_key (\<lambda>v. - p v) xs)" by simp
  moreover have "\<forall>y\<in>set (x # sort_key (\<lambda>v. - p v) xs). normalizeExtensionPriority y d = Inr (p y)"
    using Cons.prems by simp
  ultimately show ?case
    by (simp add: sort_insert_insort [where p = p])
qed

lemma array_sort_sort_key:
  assumes "\<forall>y\<in>set xs. normalizeExtensionPriority y d = Inr (p y)"
  shows "array_sort (priority_compare d) xs = Inr (sort_key (\<lambda>v. - p v) xs)"
proof -
  have "normalizeExtensionPriority Undefined d \<noteq> Inr k" for k
    by (simp add: normalizeExtensionPriority_def normalizeExtension_def)
  with assms have no: "\<forall>y\<in>set xs. y \<noteq> Undefined" by metis
  then have f: "filter (\<lambda>x. x \<noteq> Undefined) xs = xs" and g: "filter (\<lambda>x. x = Undefined) xs = []"
    by (simp_all add: filter_empty_conv)
  show ?thesis
    unfolding array_sort_def f g using insertion_sort_sort_key [OF assms] by simp
qed

lemma sort_key_descending:
  "sorted_wrt (\<lambda>x y. (p y :: int) \<le> p x) (sort_key (\<lambda>v. - p v) xs)"
proof -
  have "sorted (map (\<lambda>v. - p v) (sort_key (\<lambda>v. - p v) xs))" by (rule sorted_sort_key)
  then show ?thesis by (simp add: sorted_map)
qed

lemma sort_key_stable_neg:
  "filter (\<lambda>x. (p x :: int) = k) (sort_key (\<lambda>v. - p v) xs) = filter (\<lambda>x. p x = k) xs"
  using sort_key_stable [of "\<lambda>v. - p v" "- k" xs] by simp

lemma byList_onAdd_new:
  assumes "\<forall>x\<in>set list. normalizeExtensionPriority x d = Inr (p x)"
    and "normalizeExtensionPriority (ef_ref e) d = Inr (p (ef_ref e))"
    and "\<not> array_includes list (ef_ref e)"
  shows "byList_onAdd d e list = Return () (sort_key (\<lambda>v. - p v) (list @ [ef_ref e]))"
proof -
  have "\<forall>y\<in>set (list @ [ef_ref e]). normalizeExtensionPriority y d = Inr (p y)"
    using assms(1,2) by simp
  from array_sort_sort_key [OF this] assms(3) show ?thesis
    by (simp add: byList_onAdd_def)
qed

lemma handleByList_installs:
  assumes "handleByList ty dp s = Return () s'"
  shows "addHandlers (fst s') ty = Some (byList_onAdd (case dp of None \<Rightarrow> - 1 | Some v \<Rightarrow> v))"
  using assms
  by (auto simp: handleByList_def handle_def Let_def split: if_splits option.splits result.splits)

lemma example_5_m1_10:
  "snd (state_of (then_do (handleByList Renderer None (new_extensions, []))
        (add [plugin_class 1 Renderer (Some 5), plugin_class 2 Renderer (Some (- 1)),
              plugin_class 3 Renderer (Some 10)]))) =
     [plugin_class 3 Renderer (Some 10), plugin_class 1 Renderer (Some 5),
      plugin_class 2 Renderer (Some (- 1))]"
  by (simp add: then_do_def state_of_def handleByList_def handle_def new_extensions_def add_def
      normalizeExtension_def spread_metadata_def plugin_class_def type_forEach_def add_type_def
      call_handler_def byList_onAdd_def array_sort_def array_includes_def priority_compare_def
      normalizeExtensionPriority_def)

subsection \<open>The claims\<close>

text \<open>
  C5.  When an add handler or a remove handler is installed for an extension point, a call
  to \<open>handle\<close> for that point throws the already-registered error and leaves the registry
  and the world as they were, so the installed handlers are not overwritten.  For a point
  with neither, \<open>handle\<close> does not throw that error and installs both handlers: when it
  returns, and also when a queued record makes \<open>onAdd\<close> throw.
\<close>

theorem handle_singleton:
  "(addHandlers (fst s) ty \<noteq> None \<or> removeHandlers (fst s) ty \<noteq> None \<longrightarrow>
      handle ty onAdd onRemove s =
        Throw (Error (''Extension type '' @ type_name ty @ '' already has a handler'')) s) \<and>
   (addHandlers (fst s) ty = None \<and> removeHandlers (fst s) ty = None \<longrightarrow>
      (\<exists>s'. (handle ty onAdd onRemove s = Return () s' \<or>
             (\<exists>e. handle ty onAdd onRemove s = Throw e s')) \<and>
            addHandlers (fst s') ty = Some onAdd \<and>
            removeHandlers (fst s') ty = Some onRemove))"
  by (auto simp: handle_def Let_def split: option.splits result.splits)

theorem handle_singleton_witness:
  "\<exists>s1. handle Renderer record_call record_call (new_extensions, []) = Return () s1 \<and>
        addHandlers (fst s1) Renderer = Some record_call \<and>
        removeHandlers (fst s1) Renderer = Some record_call \<and>
        handle Renderer ignore_call ignore_call s1 =
          Throw (Error ''Extension type renderer already has a handler'') s1 \<and>
        addHandlers (fst s1) Renderer \<noteq> Some ignore_call"
proof -
  let ?s0 = "(new_extensions, []) :: ExtensionFormat list extensions \<times> ExtensionFormat list"
  have fresh: "addHandlers (fst ?s0) Renderer = None \<and> removeHandlers (fst ?s0) Renderer = None"
    by (simp add: new_extensions_def)
  have no_throw: "\<And>e s'. handle Renderer record_call record_call ?s0 \<noteq> Throw e s'"
    by (simp add: handle_def new_extensions_def)
  from handle_singleton [of ?s0 Renderer record_call record_call] fresh no_throw
  obtain s1 where s1: "handle Renderer record_call record_call ?s0 = Return () s1"
      "addHandlers (fst s1) Renderer = Some record_call"
      "removeHandlers (fst s1) Renderer = Some record_call"
    by blast
  have "handle Renderer ignore_call ignore_call s1 =
          Throw (Error ''Extension type renderer already has a handler'') s1"
    using handle_singleton [of s1 Renderer ignore_call ignore_call] s1 by simp
  moreover have "record_call \<noteq> ignore_call"
  proof
    assume "record_call = ignore_call"
    then have "record_call \<lparr>ef_type = TypeUndefined, ef_name = None, ef_priority = None,
                 ef_ref = Undefined\<rparr> [] = ignore_call \<lparr>ef_type = TypeUndefined,
                 ef_name = None, ef_priority = None, ef_ref = Undefined\<rparr> []"
      by simp
    then show False by (simp add: record_call_def ignore_call_def)
  qed
  ultimately show ?thesis using s1 by auto
qed

text \<open>
  C3.  Let no handler be installed for the point \<open>X\<close>, and let \<open>A\<close> and then \<open>B\<close> be added,
  both calls returning.  A later \<open>handle X onAdd onRemove\<close> runs \<open>onAdd\<close> over the records that
  were waiting for \<open>X\<close> before, then over the record of \<open>A\<close>, then over the record of \<open>B\<close>
  (each once for every time \<open>X\<close> stands among its types), from left to right as \<open>forEach\<close>
  does: \<open>onAdd\<close> of \<open>A\<close> runs before \<open>onAdd\<close> of \<open>B\<close>.  When every call returns, the queue of
  \<open>X\<close> is deleted; when one throws, the later ones are not run and the queue stays.
\<close>

theorem handle_drains_queue_in_order:
  assumes "addHandlers (fst s) X = None" and "removeHandlers (fst s) X = None"
    and "normalizeExtension A = Inr a" and "normalizeExtension B = Inr b"
    and "add [A] s = Return () s1" and "add [B] s1 = Return () s2"
  shows "handle X onAdd onRemove s2 =
     (case forEach onAdd
             (pending (fst s) X @ replicate (count_list (types_of a) X) a
                                @ replicate (count_list (types_of b) X) b) (snd s2) of
        Return u w' \<Rightarrow>
          Return () ((fst s2)\<lparr>addHandlers := (addHandlers (fst s2))(X \<mapsto> onAdd),
                              removeHandlers := (removeHandlers (fst s2))(X \<mapsto> onRemove),
                              queue := (queue (fst s2))(X := None)\<rparr>, w')
      | Throw e w' \<Rightarrow>
          Throw e ((fst s2)\<lparr>addHandlers := (addHandlers (fst s2))(X \<mapsto> onAdd),
                             removeHandlers := (removeHandlers (fst s2))(X \<mapsto> onRemove)\<rparr>, w'))"
proof -
  from add_single_effect [OF assms(5) assms(3) assms(1)]
  have e1: "addHandlers (fst s1) = addHandlers (fst s)"
      "removeHandlers (fst s1) = removeHandlers (fst s)"
      "pending (fst s1) X = pending (fst s) X @ replicate (count_list (types_of a) X) a"
    by simp_all
  from e1(1) assms(1) have h1: "addHandlers (fst s1) X = None" by simp
  from add_single_effect [OF assms(6) assms(4) h1]
  have e2: "addHandlers (fst s2) = addHandlers (fst s1)"
      "removeHandlers (fst s2) = removeHandlers (fst s1)"
      "pending (fst s2) X = pending (fst s1) X @ replicate (count_list (types_of b) X) b"
    by simp_all
  have fresh: "addHandlers (fst s2) X = None" "removeHandlers (fst s2) X = None"
    using e1 e2 assms(1,2) by simp_all
  show ?thesis
    unfolding handle_fresh [OF fresh] using e1(3) e2(3) by simp
qed

theorem handle_drains_queue_in_order_witness:
  "normalizeExtension (plugin_class 21 Renderer (Some 5)) =
     Inr \<lparr>ef_type = TypeArray [Renderer], ef_name = None, ef_priority = Some 5,
          ef_ref = plugin_class 21 Renderer (Some 5)\<rparr> \<and>
   normalizeExtension (plugin_class 22 Renderer None) =
     Inr \<lparr>ef_type = TypeArray [Renderer], ef_name = None, ef_priority = None,
          ef_ref = plugin_class 22 Renderer None\<rparr> \<and>
   returned (handle Renderer record_call ignore_call
     (state_of (then_do (add [plugin_class 21 Renderer (Some 5)] (new_extensions, []))
        (add [plugin_class 22 Renderer None])))) \<and>
   snd (state_of (handle Renderer record_call ignore_call
     (state_of (then_do (add [plugin_class 21 Renderer (Some 5)] (new_extensions, []))
        (add [plugin_class 22 Renderer None]))))) =
     [\<lparr>ef_type = TypeArray [Renderer], ef_name = None, ef_priority = Some 5,
        ef_ref = plugin_class 21 Renderer (Some 5)\<rparr>,
      \<lparr>ef_type = TypeArray [Renderer], ef_name = None, ef_priority = None,
        ef_ref = plugin_class 22 Renderer None\<rparr>] \<and>
   queue (fst (state_of (handle Renderer record_call ignore_call
     (state_of (then_do (add [plugin_class 21 Renderer (Some 5)] (new_extensions, []))
        (add [plugin_class 22 Renderer None])))))) Renderer = None"
proof -
  let ?A = "plugin_class 21 Renderer (Some 5)" and ?B = "plugin_class 22 Renderer None"
  let ?a = "\<lparr>ef_type = TypeArray [Renderer], ef_name = None, ef_priority = Some 5, ef_ref = ?A\<rparr>"
  let ?b = "\<lparr>ef_type = TypeArray [Renderer], ef_name = None, ef_priority = None, ef_ref = ?B\<rparr>"
  let ?s = "(new_extensions, []) :: ExtensionFormat list extensions \<times> ExtensionFormat list"
  let ?s1 = "(new_extensions\<lparr>queue := [Renderer \<mapsto> [?a]]\<rparr>, []) ::
      ExtensionFormat list extensions \<times> ExtensionFormat list"
  let ?s2 = "(new_extensions\<lparr>queue := [Renderer \<mapsto> [?a, ?b]]\<rparr>, []) ::
      ExtensionFormat list extensions \<times> ExtensionFormat list"
  have na: "normalizeExtension ?A = Inr ?a" and nb: "normalizeExtension ?B = Inr ?b"
    by (simp_all add: normalizeExtension_def plugin_class_def spread_metadata_def)
  have fresh: "addHandlers (fst ?s) Renderer = None" "removeHandlers (fst ?s) Renderer = None"
    by (simp_all add: new_extensions_def)
  have r1: "add [?A] ?s = Return () ?s1"
    by (simp add: add_def na type_forEach_def add_type_def new_extensions_def)
  have r2: "add [?B] ?s1 = Return () ?s2"
    by (simp add: add_def nb type_forEach_def add_type_def new_extensions_def)
  have s2_eq: "state_of (then_do (add [?A] ?s) (add [?B])) = ?s2"
    unfolding r1 then_do_def by (simp add: r2 state_of_def)
  have w2: "snd ?s2 = []"
    by simp
  have p0: "pending (fst ?s) Renderer = []"
    by (simp add: pending_def new_extensions_def)
  have fe: "forEach record_call
      (pending (fst ?s) Renderer @ replicate (count_list (types_of ?a) Renderer) ?a
         @ replicate (count_list (types_of ?b) Renderer) ?b) (snd ?s2) = Return () [?a, ?b]"
    by (simp add: pending_def new_extensions_def types_of_def record_call_def)
  note h = handle_drains_queue_in_order [OF fresh na nb r1 r2, of record_call ignore_call]
  show ?thesis
    unfolding s2_eq h fe by (simp add: returned_def state_of_def na nb)
qed

text \<open>
  C10.  A class with no property \<open>extension\<close>, own or inherited, makes \<open>add\<close> throw, alone or
  anywhere among the items, with the registry and the world unchanged.  \<open>NegationBlend\<close> and
  \<open>ExclusionBlend\<close> declare \<open>extensions\<close>, so unless they inherit a property \<open>extension\<close> the
  calls \<open>extensions.add(NegationBlend)\<close> and \<open>extensions.add(ExclusionBlend)\<close> throw and
  nothing is registered.
\<close>

theorem add_rejects_class_without_extension:
  "(map_of ps ''extension'' = None \<longrightarrow>
      add [Class i ps] s = Throw (Error ''Extension class must have an extension object'') s \<and>
      (Class i ps \<in> set items \<longrightarrow> (\<exists>e. add items s = Throw e s))) \<and>
   (map_of inherited ''extension'' = None \<longrightarrow>
      add [NegationBlend i inherited] s =
        Throw (Error ''Extension class must have an extension object'') s \<and>
      add [ExclusionBlend i inherited] s =
        Throw (Error ''Extension class must have an extension object'') s)"
proof -
  have one: "add [Class j qs] s = Throw (Error ''Extension class must have an extension object'') s"
    if "map_of qs ''extension'' = None" for j qs
    using normalize_class_without_extension [OF that] by (simp add: add_def)
  have many: "\<exists>e. add items s = Throw e s"
    if "map_of ps ''extension'' = None" "Class i ps \<in> set items"
    using map_normalize_throws [OF that(2) normalize_class_without_extension [OF that(1)]]
    by (auto simp: add_def)
  show ?thesis
    using one many by (simp add: NegationBlend_def ExclusionBlend_def)
qed

theorem add_rejects_class_without_extension_witness:
  "add [NegationBlend 1 []] (new_extensions, [] :: jsvalue list) =
     Throw (Error ''Extension class must have an extension object'') (new_extensions, []) \<and>
   add [ExclusionBlend 2 []] (new_extensions, [] :: jsvalue list) =
     Throw (Error ''Extension class must have an extension object'') (new_extensions, []) \<and>
   (\<exists>e. add [plugin_class 3 BlendMode None, NegationBlend 1 []] (new_extensions, [] :: jsvalue list) =
     Throw e (new_extensions, []))"
  using add_rejects_class_without_extension
    [of "[(''extensions'', MetaDetails \<lparr>md_type = TypeString BlendMode, md_name = Some ''negation'',
                            md_priority = None\<rparr>)]" 1 "(new_extensions, [] :: jsvalue list)"
        "[plugin_class 3 BlendMode None, NegationBlend 1 []]" "[]"]
    add_rejects_class_without_extension
    [of "[]" 2 "(new_extensions, [] :: jsvalue list)" "[]" "[]"]
  by (simp add: NegationBlend_def)

text \<open>
  C4, as amended.  The handler installed by \<open>handleByList\<close> is \<open>byList_onAdd\<close> with the given
  default priority, \<open>-1\<close> when omitted.  Let \<open>p\<close> give the priority that each ref in the list
  and the new ref itself normalizes to (its own metadata, with the default when it names
  none).  A ref already in the list by identity leaves the list as it is.  Otherwise the
  new list holds the old elements and the new ref, in descending order of \<open>p\<close>, and elements
  of equal priority keep their relative order.  Classes that carry the priorities \<open>5\<close>,
  \<open>-1\<close> and \<open>10\<close> in their own metadata, added in this order, end in the order
  \<open>10\<close>, \<open>5\<close>, \<open>-1\<close>.
\<close>

theorem handleByList_sorts_by_ref_priority:
  assumes "\<forall>x\<in>set list. normalizeExtensionPriority x d = Inr (p x)"
    and "normalizeExtensionPriority (ef_ref e) d = Inr (p (ef_ref e))"
  shows "(handleByList ty dp s = Return () s' \<longrightarrow>
            addHandlers (fst s') ty =
              Some (byList_onAdd (case dp of None \<Rightarrow> - 1 | Some v \<Rightarrow> v))) \<and>
         (array_includes list (ef_ref e) \<longrightarrow> byList_onAdd d e list = Return () list) \<and>
         (\<not> array_includes list (ef_ref e) \<longrightarrow>
            (\<exists>l'. byList_onAdd d e list = Return () l' \<and>
                  sorted_wrt (\<lambda>x y. p y \<le> p x) l' \<and>
                  mset l' = mset (list @ [ef_ref e]) \<and>
                  (\<forall>k. filter (\<lambda>x. p x = k) l' = filter (\<lambda>x. p x = k) (list @ [ef_ref e])))) \<and>
         snd (state_of (then_do (handleByList Renderer None (new_extensions, []))
           (add [plugin_class 1 Renderer (Some 5), plugin_class 2 Renderer (Some (- 1)),
                 plugin_class 3 Renderer (Some 10)]))) =
           [plugin_class 3 Renderer (Some 10), plugin_class 1 Renderer (Some 5),
            plugin_class 2 Renderer (Some (- 1))]"
proof -
  have a: "handleByList ty dp s = Return () s' \<longrightarrow>
            addHandlers (fst s') ty =
              Some (byList_onAdd (case dp of None \<Rightarrow> - 1 | Some v \<Rightarrow> v))"
    using handleByList_installs by blast
  have b: "array_includes list (ef_ref e) \<longrightarrow> byList_onAdd d e list = Return () list"
    by (simp add: byList_onAdd_def)
  have c: "\<exists>l'. byList_onAdd d e list = Return () l' \<and>
                  sorted_wrt (\<lambda>x y. p y \<le> p x) l' \<and>
                  mset l' = mset (list @ [ef_ref e]) \<and>
                  (\<forall>k. filter (\<lambda>x. p x = k) l' = filter (\<lambda>x. p x = k) (list @ [ef_ref e]))"
    if "\<not> array_includes list (ef_ref e)"
    using byList_onAdd_new [OF assms that] sort_key_descending [of p] sort_key_stable_neg [of p]
    by simp
  from a b c example_5_m1_10 show ?thesis by blast
qed

theorem handleByList_sorts_by_ref_priority_witness:
  "normalizeExtensionPriority (plugin_class 1 Renderer (Some 5)) (- 1) = Inr 5 \<and>
   normalizeExtensionPriority (plugin_class 2 Renderer None) (- 1) = Inr (- 1) \<and>
   byList_onAdd (- 1) \<lparr>ef_type = TypeArray [Renderer], ef_name = None, ef_priority = None,
       ef_ref = plugin_class 2 Renderer None\<rparr>
     [plugin_class 1 Renderer (Some 5), plugin_class 2 Renderer None] =
     Return () [plugin_class 1 Renderer (Some 5), plugin_class 2 Renderer None] \<and>
   byList_onAdd (- 1) \<lparr>ef_type = TypeArray [Renderer], ef_name = None, ef_priority = None,
       ef_ref = plugin_class 2 Renderer None\<rparr>
     [plugin_class 1 Renderer (Some 5)] =
     Return () [plugin_class 1 Renderer (Some 5), plugin_class 2 Renderer None]"
  using handleByList_sorts_by_ref_priority
    [of "[plugin_class 1 Renderer (Some 5), plugin_class 2 Renderer None]" "- 1"
        "\<lambda>v. if v = plugin_class 1 Renderer (Some 5) then 5 else - 1"
        "\<lparr>ef_type = TypeArray [Renderer], ef_name = None, ef_priority = None,
           ef_ref = plugin_class 2 Renderer None\<rparr>"]
  by (simp add: plugin_class_def normalizeExtensionPriority_def normalizeExtension_def
      spread_metadata_def array_includes_def byList_onAdd_def array_sort_def priority_compare_def)

text \<open>
  C4 as stated fails for explicit descriptors: three descriptors with the priorities \<open>5\<close>,
  \<open>-1\<close> and \<open>10\<close> normalize to records with these priorities, but the list is sorted by
  what the refs normalize to, here the default each time, and keeps the order of arrival.
\<close>

theorem handleByList_descriptor_priority_counterexample:
  "map_normalize [descriptor 1 Renderer (Some 5) 11, descriptor 2 Renderer (Some (- 1)) 12,
                  descriptor 3 Renderer (Some 10) 13] =
     Inr [\<lparr>ef_type = TypeArray [Renderer], ef_name = None, ef_priority = Some 5,
            ef_ref = plain_object 11\<rparr>,
          \<lparr>ef_type = TypeArray [Renderer], ef_name = None, ef_priority = Some (- 1),
            ef_ref = plain_object 12\<rparr>,
          \<lparr>ef_type = TypeArray [Renderer], ef_name = None, ef_priority = Some 10,
            ef_ref = plain_object 13\<rparr>] \<and>
   returned (then_do (handleByList Renderer None (new_extensions, []))
     (add [descriptor 1 Renderer (Some 5) 11, descriptor 2 Renderer (Some (- 1)) 12,
           descriptor 3 Renderer (Some 10) 13])) \<and>
   snd (state_of (then_do (handleByList Renderer None (new_extensions, []))
     (add [descriptor 1 Renderer (Some 5) 11, descriptor 2 Renderer (Some (- 1)) 12,
           descriptor 3 Renderer (Some 10) 13]))) =
     [plain_object 11, plain_object 12, plain_object 13] \<and>
   [plain_object 11, plain_object 12, plain_object 13] \<noteq>
     [plain_object 13, plain_object 11, plain_object 12]"
  by (simp add: then_do_def state_of_def returned_def handleByList_def handle_def
      new_extensions_def add_def normalizeExtension_def descriptor_def plain_object_def
      type_forEach_def add_type_def call_handler_def byList_onAdd_def array_sort_def array_includes_def
      priority_compare_def normalizeExtensionPriority_def)

section \<open>Properties of display objects\<close>

subsection \<open>Auxiliary facts\<close>

lemmas example_heap_defs =
  parent_and_child_def two_objects_def new_DisplayObject_def empty_heap_def update_object_def
  offset_env_def offset_transform_def blank_object_def

lemma getBounds_rectangle_False:
  "getBounds_rectangle E n False h =
     (case u_bounds (objects h n) of
        None \<Rightarrow>
          Throw TypeError
            (case u_boundsRect (objects h n) of
               None \<Rightarrow> update_object n (\<lambda>ob. ob\<lparr>u_boundsRect := Some (0, 0, 0, 0)\<rparr>) h
             | Some r \<Rightarrow> h)
      | Some b \<Rightarrow>
          Return (Bounds_getRectangle E b)
            (update_object n (\<lambda>ob. ob\<lparr>u_boundsRect := Some (Bounds_getRectangle E b)\<rparr>) h))"
proof (cases "u_boundsRect (objects h n)")
  case None
  then show ?thesis
    by (cases "u_bounds (objects h n)")
      (simp_all add: getBounds_rectangle_def update_object_def Let_def)
next
  case (Some r)
  then show ?thesis
    by (cases "u_bounds (objects h n)")
      (simp_all add: getBounds_rectangle_def update_object_def Let_def)
qed

lemma getBounds_rectangle_again:
  assumes "getBounds_rectangle E n False h = Return r h1"
  shows "getBounds_rectangle E n False h1 = Return r h1"
proof (cases "u_bounds (objects h n)")
  case None
  with assms show ?thesis by (simp add: getBounds_rectangle_False)
next
  case (Some b)
  with assms have r: "r = Bounds_getRectangle E b"
    and h1: "h1 = update_object n (\<lambda>ob. ob\<lparr>u_boundsRect := Some r\<rparr>) h"
    by (auto simp: getBounds_rectangle_False)
  have "u_bounds (objects h1 n) = Some b"
    unfolding h1 using Some by (simp add: update_object_def)
  then show ?thesis
    unfolding getBounds_rectangle_False r h1 by (simp add: update_object_def)
qed

lemma getBounds_calculate_valid:
  assumes "u_lastBoundsID (objects h n) = u_boundsID (objects h n)"
  shows "getBounds_calculate E n h = Return () h"
  using assms by (simp add: getBounds_calculate_def)

lemma getBounds_calculate_makes_valid:
  assumes "getBounds_calculate E n h = Return () h1"
  shows "u_lastBoundsID (objects h1 n) = u_boundsID (objects h1 n)"
  using assms
  by (auto simp: getBounds_calculate_def update_object_def split: if_splits result.splits)

lemma getBounds_rectangle_ids:
  "u_lastBoundsID (objects (state_of (getBounds_rectangle E n rect h)) n) = u_lastBoundsID (objects h n) \<and>
   u_boundsID (objects (state_of (getBounds_rectangle E n rect h)) n) = u_boundsID (objects h n) \<and>
   calculateBounds_calls (state_of (getBounds_rectangle E n rect h)) = calculateBounds_calls h"
proof (cases rect)
  case True
  then show ?thesis
    by (cases "u_bounds (objects h n)") (simp_all add: getBounds_rectangle_def state_of_def)
next
  case False
  then show ?thesis
    by (cases "u_bounds (objects h n)"; cases "u_boundsRect (objects h n)")
      (simp_all add: getBounds_rectangle_False state_of_def update_object_def)
qed

lemma set_mask_Some_plain:
  assumes "maskObject (objects h m) = None"
  shows "u_renderable (objects (set_mask n (Some m) h) m) = False \<and>
         isMask (objects (set_mask n (Some m) h) m) = True \<and>
         u_mask (objects (set_mask n (Some m) h) n) = Some m \<and>
         maskObject (objects (set_mask n (Some m) h) m) = None"
proof (cases "u_mask (objects h n)")
  case None
  with assms show ?thesis
    by (auto simp: set_mask_def mark_mask_def set_renderable_def update_object_def Let_def)
next
  case (Some q)
  show ?thesis
  proof (cases "maskObject (objects h q)")
    case None
    with Some assms show ?thesis
      by (auto simp: set_mask_def mark_mask_def set_renderable_def update_object_def Let_def)
  next
    case (Some x)
    with \<open>u_mask (objects h n) = Some q\<close> assms show ?thesis
      by (auto simp: set_mask_def mark_mask_def set_renderable_def update_object_def Let_def)
  qed
qed

lemma set_mask_None_plain:
  assumes "u_mask (objects h n) = Some m" and "maskObject (objects h m) = None"
  shows "u_renderable (objects (set_mask n None h) m) = True \<and>
         isMask (objects (set_mask n None h) m) = False \<and>
         u_mask (objects (set_mask n None h) n) = None"
  using assms
  by (auto simp: set_mask_def mark_mask_def set_renderable_def update_object_def Let_def)

lemma set_mask_restores_previous:
  assumes "u_mask (objects h n) = Some q" and "maskObject (objects h q) = None"
    and "maskObject (objects h m) = None" and "q \<noteq> m"
  shows "u_renderable (objects (set_mask n (Some m) h) q) = True \<and>
         isMask (objects (set_mask n (Some m) h) q) = False"
  using assms
  by (auto simp: set_mask_def mark_mask_def set_renderable_def update_object_def Let_def)













lemma getBounds_rectangle_True_again:
  assumes "getBounds_rectangle E n True h = Return r h1"
  shows "getBounds_rectangle E n True h1 = Return r h1"
  using assms
  by (cases "u_bounds (objects h n)") (auto simp: getBounds_rectangle_def)

lemma getBounds_rectangle_any_again:
  assumes "getBounds_rectangle E n rect h = Return r h1"
  shows "getBounds_rectangle E n rect h1 = Return r h1"
  using assms getBounds_rectangle_again getBounds_rectangle_True_again
  by (cases rect) simp_all





















subsection \<open>The claims\<close>

text \<open>
  C1.  Let the parent of \<open>n\<close> be \<open>p\<close>, and let both have a transform (as every display
  object has until it is destroyed).  Then \<open>updateTransform\<close> returns; \<open>_boundsID\<close> of \<open>n\<close>
  has grown by one; the transform of \<open>n\<close> is what \<open>Transform.updateTransform\<close> makes of it
  from the transform of \<open>p\<close>; and \<open>worldAlpha\<close> of \<open>n\<close> is the product of its \<open>alpha\<close> and
  the \<open>worldAlpha\<close> of \<open>p\<close>, neither of which the call changes (for \<open>p\<close>: unless \<open>p\<close> is \<open>n\<close>
  itself, where the product is taken with the value before the call).
\<close>

theorem updateTransform_effect:
  assumes "parent (objects h n) = Some p"
    and "u_transform (objects h n) = Some t"
    and "u_transform (objects h p) = Some pt"
  shows "\<exists>h'. updateTransform E n h = Return () h' \<and>
           u_boundsID (objects h' n) = u_boundsID (objects h n) + 1 \<and>
           transforms h' t = Transform_updateTransform E (transforms h pt) (transforms h t) \<and>
           worldAlpha (objects h' n) = u_alpha (objects h n) * worldAlpha (objects h p) \<and>
           u_alpha (objects h' n) = u_alpha (objects h n) \<and>
           parent (objects h' n) = Some p \<and>
           (p \<noteq> n \<longrightarrow> worldAlpha (objects h' p) = worldAlpha (objects h p))"
  using assms
  by (auto simp: updateTransform_def update_object_def call_updateTransform_def Let_def)

theorem updateTransform_effect_witness:
  "parent (objects parent_and_child 1) = Some 0 \<and>
   u_transform (objects parent_and_child 1) = Some 1 \<and>
   u_transform (objects parent_and_child 0) = Some 0 \<and>
   returned (updateTransform offset_env 1 parent_and_child) \<and>
   u_boundsID (objects parent_and_child 1) = 0 \<and>
   u_boundsID (objects (state_of (updateTransform offset_env 1 parent_and_child)) 1) = 1 \<and>
   worldAlpha (objects (state_of (updateTransform offset_env 1 parent_and_child)) 1) = 1 / 4"
proof -
  have a: "parent (objects parent_and_child 1) = Some 0"
    and b: "u_transform (objects parent_and_child 1) = Some 1"
    and c: "u_transform (objects parent_and_child 0) = Some 0"
    and d: "u_boundsID (objects parent_and_child 1) = 0"
    and e: "u_alpha (objects parent_and_child 1) = 1 / 2"
    and f: "worldAlpha (objects parent_and_child 0) = 1 / 2"
    by (simp_all add: example_heap_defs)
  from updateTransform_effect [OF a b c, of offset_env]
  obtain h' where h': "updateTransform offset_env 1 parent_and_child = Return () h'"
      "u_boundsID (objects h' 1) = u_boundsID (objects parent_and_child 1) + 1"
      "worldAlpha (objects h' 1) =
         u_alpha (objects parent_and_child 1) * worldAlpha (objects parent_and_child 0)"
    by blast
  have w: "worldAlpha (objects h' 1) = 1 / 4"
    unfolding h'(3) e f by simp
  have i: "u_boundsID (objects h' 1) = 1"
    unfolding h'(2) d by simp
  show ?thesis
    unfolding h'(1) state_of_def returned_def using a b c d w i by simp
qed

text \<open>
  C2.  When \<open>getBounds\<close> with \<open>skipUpdate = true\<close> has returned a rectangle, the same call on
  the state it left returns the same rectangle and leaves that state as it is: in
  particular \<open>_lastBoundsID\<close> and the record of the calls of \<open>calculateBounds\<close> do not
  change.  Whenever \<open>_lastBoundsID\<close> equals \<open>_boundsID\<close>, the call leaves both and the
  record of the calls of \<open>calculateBounds\<close> unchanged.  With the \<open>calculateBounds\<close> of
  \<open>DisplayObject\<close> and a \<open>Bounds\<close> in place the call returns.
\<close>

theorem getBounds_skipUpdate_idempotent:
  "(getBounds E d n True rect h = Return r h1 \<longrightarrow> getBounds E d' n True rect h1 = Return r h1) \<and>
   (u_lastBoundsID (objects h n) = u_boundsID (objects h n) \<longrightarrow>
      calculateBounds_calls (state_of (getBounds E d n True rect h)) = calculateBounds_calls h \<and>
      u_lastBoundsID (objects (state_of (getBounds E d n True rect h)) n) =
        u_lastBoundsID (objects h n) \<and>
      u_boundsID (objects (state_of (getBounds E d n True rect h)) n) = u_boundsID (objects h n)) \<and>
   (calculateBounds E = base_calculateBounds \<and> u_bounds (objects h n) \<noteq> None \<longrightarrow>
      returned (getBounds E d n True rect h))"
proof -
  have first: "getBounds E d' n True rect h1 = Return r h1"
    if "getBounds E d n True rect h = Return r h1"
  proof -
    from that obtain h0 where c: "getBounds_calculate E n h = Return () h0"
        and q: "getBounds_rectangle E n rect h0 = Return r h1"
      by (auto simp: getBounds_def split: result.splits)
    have "u_lastBoundsID (objects h0 n) = u_boundsID (objects h0 n)"
      by (rule getBounds_calculate_makes_valid [OF c])
    with getBounds_rectangle_ids [of E n rect h0] q
    have "u_lastBoundsID (objects h1 n) = u_boundsID (objects h1 n)"
      by (simp add: state_of_def)
    from getBounds_calculate_valid [OF this] getBounds_rectangle_any_again [OF q]
    show ?thesis by (simp add: getBounds_def)
  qed
  have second: "calculateBounds_calls (state_of (getBounds E d n True rect h)) = calculateBounds_calls h \<and>
      u_lastBoundsID (objects (state_of (getBounds E d n True rect h)) n) =
        u_lastBoundsID (objects h n) \<and>
      u_boundsID (objects (state_of (getBounds E d n True rect h)) n) = u_boundsID (objects h n)"
    if "u_lastBoundsID (objects h n) = u_boundsID (objects h n)"
    using getBounds_calculate_valid [OF that, of E] getBounds_rectangle_ids [of E n rect h]
    by (simp add: getBounds_def)
  have third: "returned (getBounds E d n True rect h)"
    if "calculateBounds E = base_calculateBounds" "u_bounds (objects h n) \<noteq> None"
  proof -
    from that(2) obtain b where b: "u_bounds (objects h n) = Some b" by auto
    have "\<exists>h0. getBounds_calculate E n h = Return () h0 \<and> u_bounds (objects h0 n) = Some b"
      using that(1) b
      by (simp add: getBounds_calculate_def base_calculateBounds_def update_object_def)
    then obtain h0 where h0: "getBounds_calculate E n h = Return () h0"
        "u_bounds (objects h0 n) = Some b"
      by blast
    show ?thesis
    proof (cases rect)
      case True
      with h0 show ?thesis
        by (simp add: getBounds_def getBounds_rectangle_def returned_def)
    next
      case False
      with h0 show ?thesis
        by (simp add: getBounds_def getBounds_rectangle_False returned_def)
    qed
  qed
  from first second third show ?thesis by blast
qed

theorem getBounds_skipUpdate_idempotent_witness:
  "returned (getBounds offset_env 2 0 True False two_objects) \<and>
   getBounds offset_env 2 0 True False
     (state_of (getBounds offset_env 2 0 True False two_objects)) =
     getBounds offset_env 2 0 True False two_objects \<and>
   u_lastBoundsID (objects two_objects 0) \<noteq> u_boundsID (objects two_objects 0) \<and>
   u_lastBoundsID (objects (state_of (getBounds offset_env 2 0 True False two_objects)) 0) =
     u_boundsID (objects (state_of (getBounds offset_env 2 0 True False two_objects)) 0) \<and>
   calculateBounds_calls (state_of (getBounds offset_env 2 0 True False two_objects)) = [0] \<and>
   calculateBounds_calls (state_of (getBounds offset_env 2 0 True False
     (state_of (getBounds offset_env 2 0 True False two_objects)))) = [0]"
proof -
  have hook: "calculateBounds offset_env = base_calculateBounds"
    by (simp add: offset_env_def)
  have live: "u_bounds (objects two_objects 0) \<noteq> None"
    by (simp add: example_heap_defs)
  from getBounds_skipUpdate_idempotent [of offset_env 2 0 False two_objects _ _ 2] hook live
  have "returned (getBounds offset_env 2 0 True False two_objects)" by blast
  then obtain r h1 where first: "getBounds offset_env 2 0 True False two_objects = Return r h1"
    by (auto simp: returned_def split: result.splits)
  from getBounds_skipUpdate_idempotent [of offset_env 2 0 False two_objects r h1 2] first
  have again: "getBounds offset_env 2 0 True False h1 = Return r h1" by blast
  have "calculateBounds_calls (state_of (getBounds offset_env 2 0 True False two_objects)) = [0]"
    by (simp add: getBounds_def getBounds_calculate_def getBounds_rectangle_False
        base_calculateBounds_def state_of_def example_heap_defs)
  then have calls: "calculateBounds_calls h1 = [0]"
    by (simp add: first state_of_def)
  have stale: "u_lastBoundsID (objects two_objects 0) \<noteq> u_boundsID (objects two_objects 0)"
    by (simp add: example_heap_defs)
  have "u_lastBoundsID (objects (state_of (getBounds offset_env 2 0 True False two_objects)) 0) =
     u_boundsID (objects (state_of (getBounds offset_env 2 0 True False two_objects)) 0)"
    by (simp add: getBounds_def getBounds_calculate_def getBounds_rectangle_False
        base_calculateBounds_def state_of_def example_heap_defs)
  then have valid: "u_lastBoundsID (objects h1 0) = u_boundsID (objects h1 0)"
    by (simp add: first state_of_def)
  show ?thesis
    unfolding first state_of_def result.case again using calls stale valid
    by (simp add: returned_def)
qed







text \<open>
  C8.  Let \<open>m\<close> be a display object (it has no property \<open>maskObject\<close>).  After
  \<open>n.mask = m\<close> the mask of \<open>n\<close> is \<open>m\<close>, \<open>m\<close> is not renderable and is marked as a mask;
  after \<open>n.mask = null\<close> on that state \<open>m\<close> is renderable again and no longer marked.  A
  previous mask \<open>q\<close> of \<open>n\<close>, another display object, is renderable and not marked after
  \<open>n.mask = m\<close>.
\<close>

theorem mask_setter_marks_mask:
  assumes "maskObject (objects h m) = None"
  shows "u_mask (objects (set_mask n (Some m) h) n) = Some m \<and>
         u_renderable (objects (set_mask n (Some m) h) m) = False \<and>
         isMask (objects (set_mask n (Some m) h) m) = True \<and>
         u_mask (objects (set_mask n None (set_mask n (Some m) h)) n) = None \<and>
         u_renderable (objects (set_mask n None (set_mask n (Some m) h)) m) = True \<and>
         isMask (objects (set_mask n None (set_mask n (Some m) h)) m) = False \<and>
         (\<forall>q. u_mask (objects h n) = Some q \<and> maskObject (objects h q) = None \<and> q \<noteq> m \<longrightarrow>
              u_renderable (objects (set_mask n (Some m) h) q) = True \<and>
              isMask (objects (set_mask n (Some m) h) q) = False)"
proof -
  note a = set_mask_Some_plain [OF assms, of n]
  from a have "u_mask (objects (set_mask n (Some m) h) n) = Some m"
    and "maskObject (objects (set_mask n (Some m) h) m) = None" by simp_all
  note b = set_mask_None_plain [OF this]
  from a b set_mask_restores_previous [OF _ _ assms] show ?thesis by blast
qed

theorem mask_setter_marks_mask_witness:
  "maskObject (objects two_objects 1) = None \<and>
   u_renderable (objects two_objects 1) = True \<and>
   isMask (objects two_objects 1) = False \<and>
   u_renderable (objects (set_mask 0 (Some 1) two_objects) 1) = False \<and>
   isMask (objects (set_mask 0 (Some 1) two_objects) 1) = True \<and>
   u_renderable (objects (set_mask 0 None (set_mask 0 (Some 1) two_objects)) 1) = True \<and>
   isMask (objects (set_mask 0 None (set_mask 0 (Some 1) two_objects)) 1) = False \<and>
   u_mask (objects (set_mask 0 (Some 1) two_objects) 0) = Some 1 \<and>
   maskObject (objects (set_mask 0 (Some 1) two_objects) 0) = None \<and>
   u_renderable (objects (set_mask 0 (Some 0) (set_mask 0 (Some 1) two_objects)) 1) = True \<and>
   isMask (objects (set_mask 0 (Some 0) (set_mask 0 (Some 1) two_objects)) 1) = False \<and>
   isMask (objects (set_mask 0 (Some 0) (set_mask 0 (Some 1) two_objects)) 0) = True"
proof -
  have a: "maskObject (objects two_objects 1) = None"
    and a0: "maskObject (objects two_objects 0) = None"
    and b: "u_renderable (objects two_objects 1) = True"
    and c: "isMask (objects two_objects 1) = False"
    by (simp_all add: example_heap_defs)
  note first = mask_setter_marks_mask [OF a, of 0]
  have d: "maskObject (objects (set_mask 0 (Some 1) two_objects) 0) = None"
    using a a0
    by (simp add: set_mask_def mark_mask_def set_renderable_def update_object_def Let_def
        example_heap_defs)
  have e: "maskObject (objects (set_mask 0 (Some 1) two_objects) 1) = None"
    using a a0
    by (simp add: set_mask_def mark_mask_def set_renderable_def update_object_def Let_def
        example_heap_defs)
  note second = mask_setter_marks_mask [OF d, of 0]
  from first have f: "u_mask (objects (set_mask 0 (Some 1) two_objects) 0) = Some 1" by simp
  from second f e have
    "u_renderable (objects (set_mask 0 (Some 0) (set_mask 0 (Some 1) two_objects)) 1) = True \<and>
     isMask (objects (set_mask 0 (Some 0) (set_mask 0 (Some 1) two_objects)) 1) = False"
    by auto
  with first second a b c d show ?thesis by simp
qed

text \<open>
  C9.  \<open>destroy\<close> on a child while \<open>window.pixiChanged\<close> is falsy: the setter of \<open>transform\<close>
  reads \<open>value.position\<close> of \<open>null\<close> and throws.  The child is out of the children of its
  parent, but its transform and its bounds are still set and \<open>_destroyed\<close> is still false.
  The same call while \<open>window.pixiChanged\<close> is truthy returns and does what the claim
  says.
\<close>

theorem destroy_throws_in_transform_setter:
  "\<not> pixiChanged parent_and_child \<and>
   parent (objects parent_and_child 1) = Some 0 \<and>
   destroy 1 parent_and_child =
     Throw TypeError (removeAllListeners 1 (removeChild 0 1 parent_and_child)) \<and>
   u_destroyed (objects (state_of (destroy 1 parent_and_child)) 1) = False \<and>
   u_transform (objects (state_of (destroy 1 parent_and_child)) 1) = Some 1 \<and>
   u_bounds (objects (state_of (destroy 1 parent_and_child)) 1) = Some (0, 0, 0, 0) \<and>
   children (objects (state_of (destroy 1 parent_and_child)) 0) = [] \<and>
   returned (destroy 1 (parent_and_child\<lparr>pixiChanged := True\<rparr>)) \<and>
   u_destroyed (objects (state_of (destroy 1 (parent_and_child\<lparr>pixiChanged := True\<rparr>))) 1) = True \<and>
   parent (objects (state_of (destroy 1 (parent_and_child\<lparr>pixiChanged := True\<rparr>))) 1) = None \<and>
   u_transform (objects (state_of (destroy 1 (parent_and_child\<lparr>pixiChanged := True\<rparr>))) 1) = None \<and>
   u_bounds (objects (state_of (destroy 1 (parent_and_child\<lparr>pixiChanged := True\<rparr>))) 1) = None"
  by (simp add: destroy_def set_transform_def removeAllListeners_def removeChild_def Let_def
      state_of_def returned_def example_heap_defs)

end
